theory Spec2Isabelle
  imports Complex_Main "HOL-Library.Sublist"
begin

section \<open>Data model (models/command.py, models/response.py)\<close>

text \<open>
  Python values of type \<open>Any\<close>, as they occur in \<open>Command.data\<close> and in the argument map of
  a function call. A float is represented by the rational number it denotes; IEEE rounding is
  not modelled. Strings are ASCII texts (one \<open>char\<close> per code point).
\<close>

datatype pyval =
    PNone
  | PBool bool
  | PInt int
  | PFloat rat
  | PStr string
  | PList "pyval list"
  | PDict "(string \<times> pyval) list"

text \<open>Python truthiness (\<open>bool(v)\<close>, used by \<open>if not text\<close> and \<open>if not keys\<close>).\<close>

fun truthy :: "pyval \<Rightarrow> bool" where
  "truthy PNone = False"
| "truthy (PBool b) = b"
| "truthy (PInt i) = (i \<noteq> 0)"
| "truthy (PFloat f) = (f \<noteq> 0)"
| "truthy (PStr s) = (s \<noteq> [])"
| "truthy (PList xs) = (xs \<noteq> [])"
| "truthy (PDict kvs) = (kvs \<noteq> [])"

text \<open>\<open>d.get(key, default)\<close> on a dict kept as an association list.\<close>

definition dict_get :: "(string \<times> pyval) list \<Rightarrow> string \<Rightarrow> pyval \<Rightarrow> pyval" where
  "dict_get d k dflt = (case map_of d k of None \<Rightarrow> dflt | Some v \<Rightarrow> v)"

datatype CommandType =
    MOUSE_MOVE | MOUSE_CLICK | KEYBOARD_TYPE | KEYBOARD_HOTKEY
  | START_PROCESS | PRINT_OUTPUT | COMPOSITE | UNKNOWN

datatype CommandStatus = PENDING | EXECUTING | COMPLETED | FAILED | CANCELED

text \<open>
  class \<open>Command\<close>. The selectors \<open>id_c\<close> and \<open>type_c\<close> are the fields \<open>id\<close> and \<open>type\<close>.
  Timestamps are seconds as rationals; \<open>None\<close> is Python's \<open>None\<close>.
\<close>

datatype command = Command
  (id_c: string)
  (type_c: CommandType)
  (status: CommandStatus)
  (created_at: rat)
  (executed_at: "rat option")
  (completed_at: "rat option")
  (user_prompt: string)
  (raw_response: string)
  (error_message: "string option")
  (screenshot_id: "string option")
  (data: "(string \<times> pyval) list")
  (sub_commands: "command list")

text \<open>Attribute assignment on a \<open>Command\<close> object, one function per assigned field.\<close>

definition set_status :: "CommandStatus \<Rightarrow> command \<Rightarrow> command" where
  "set_status v c = (case c of Command i ty st cr ex co up rr em sid d subs \<Rightarrow>
     Command i ty v cr ex co up rr em sid d subs)"

definition set_executed_at :: "rat option \<Rightarrow> command \<Rightarrow> command" where
  "set_executed_at v c = (case c of Command i ty st cr ex co up rr em sid d subs \<Rightarrow>
     Command i ty st cr v co up rr em sid d subs)"

definition set_completed_at :: "rat option \<Rightarrow> command \<Rightarrow> command" where
  "set_completed_at v c = (case c of Command i ty st cr ex co up rr em sid d subs \<Rightarrow>
     Command i ty st cr ex v up rr em sid d subs)"

definition set_error_message :: "string option \<Rightarrow> command \<Rightarrow> command" where
  "set_error_message v c = (case c of Command i ty st cr ex co up rr em sid d subs \<Rightarrow>
     Command i ty st cr ex co up rr v sid d subs)"

definition set_sub_commands :: "command list \<Rightarrow> command \<Rightarrow> command" where
  "set_sub_commands v c = (case c of Command i ty st cr ex co up rr em sid d subs \<Rightarrow>
     Command i ty st cr ex co up rr em sid d v)"

datatype ResponseType = COMMAND | ERROR | INFORMATION | FUNCTION_CALL

record FunctionCall =
  name :: string
  arguments :: "(string \<times> pyval) list"

text \<open>
  class \<open>AIResponse\<close>, with the fields the parser and the executor read. The token counts,
  latency and metadata fields are read by none of the functions below and are left out.
\<close>

record AIResponse =
  id_r :: string
  type_r :: ResponseType
  raw_text :: string
  function_calls :: "FunctionCall list"

definition is_function_call :: "AIResponse \<Rightarrow> bool" where
  "is_function_call r = (type_r r = FUNCTION_CALL)"


section \<open>The environment: identifiers, clock and host automation\<close>

text \<open>
  The calls the code makes into the host automation library and the operating system.
  The arguments are the Python values passed.
\<close>

datatype host_call =
    MoveTo pyval pyval pyval
  | Click pyval pyval
  | Typewrite pyval
  | Hotkey pyval
  | SubprocessRun pyval
  | Print pyval

text \<open>
  How a host call ends: it returns, it raises \<open>subprocess.CalledProcessError\<close>, or it raises
  another \<open>Exception\<close>.
\<close>

datatype outcome = Returned | CalledProcessError | Raised

text \<open>
  Everything the program has asked of its environment so far, oldest first. \<open>Attempt c ok\<close> is a
  ghost event: it records that \<open>_execute_single_command\<close> ran on \<open>c\<close> and returned \<open>ok\<close>.
\<close>

datatype event =
    Uuid4
  | ClockRead
  | Host host_call
  | Sleep
  | Attempt command bool

type_synonym history = "event list"

text \<open>
  The environment answers each request as a function of the history, so that every
  deterministic behaviour of the identifier generator, the clock and the host is covered.
  \<open>validate_*\<close> stand for the field validation of the pydantic models (an external library)
  and \<open>str_of_call\<close> for Python's \<open>str\<close> of a dict.
\<close>

record env =
  uuid_src :: "history \<Rightarrow> string"
  clock_src :: "history \<Rightarrow> rat"
  host_src :: "history \<Rightarrow> host_call \<Rightarrow> outcome"
  validate_int :: "pyval \<Rightarrow> pyval option"
  validate_float :: "pyval \<Rightarrow> pyval option"
  validate_str :: "pyval \<Rightarrow> pyval option"
  validate_str_list :: "pyval \<Rightarrow> pyval option"
  str_of_call :: "FunctionCall \<Rightarrow> string"

definition uuid4 :: "env \<Rightarrow> history \<Rightarrow> string \<times> history" where
  "uuid4 E h = (uuid_src E h, h @ [Uuid4])"

definition datetime_now :: "env \<Rightarrow> history \<Rightarrow> rat \<times> history" where
  "datetime_now E h = (clock_src E h, h @ [ClockRead])"

definition host :: "env \<Rightarrow> host_call \<Rightarrow> history \<Rightarrow> outcome \<times> history" where
  "host E call h = (host_src E h call, h @ [Host call])"

definition time_sleep :: "history \<Rightarrow> history" where
  "time_sleep h = h @ [Sleep]"

text \<open>
  The constructor call \<open>Command(id=..., type=..., ...)\<close>: \<open>created_at\<close> comes from the default
  factory \<open>datetime.now\<close>; \<open>executed_at\<close> and \<open>completed_at\<close> default to \<open>None\<close>.
\<close>

definition new_command ::
  "env \<Rightarrow> string \<Rightarrow> CommandType \<Rightarrow> CommandStatus \<Rightarrow> string \<Rightarrow> string \<Rightarrow> string option
     \<Rightarrow> string option \<Rightarrow> (string \<times> pyval) list \<Rightarrow> history \<Rightarrow> command \<times> history" where
  "new_command E i ty st up rr em sid d h =
     (let (t, h1) = datetime_now E h
      in (Command i ty st t None None up rr em sid d [], h1))"


section \<open>Command.update_status (models/command.py)\<close>

definition update_status ::
  "env \<Rightarrow> CommandStatus \<Rightarrow> string option \<Rightarrow> command \<Rightarrow> history \<Rightarrow> command \<times> history" where
  "update_status E st err c h =
     (let c1 = set_status st c;
          (c2, h2) = (if st = EXECUTING \<and> executed_at c1 = None
                      then (let (t, h') = datetime_now E h in (set_executed_at (Some t) c1, h'))
                      else (c1, h));
          (c3, h3) = (if st = COMPLETED \<and> completed_at c2 = None
                      then (let (t, h') = datetime_now E h2 in (set_completed_at (Some t) c2, h'))
                      else (c2, h2));
          c4 = (if st = FAILED then set_error_message err c3 else c3)
      in (c4, h3))"

text \<open>A sequence of calls \<open>c.update_status(st, err)\<close> on the same object, in order.\<close>

fun update_status_seq ::
  "env \<Rightarrow> (CommandStatus \<times> string option) list \<Rightarrow> command \<Rightarrow> history \<Rightarrow> command \<times> history" where
  "update_status_seq E [] c h = (c, h)"
| "update_status_seq E ((st, err) # rest) c h =
     (let (c1, h1) = update_status E st err c h in update_status_seq E rest c1 h1)"

section \<open>Strings and the regular expressions of the parser\<close>

text \<open>
  \<open>str.isspace\<close> on ASCII: tab, line feed, vertical tab, form feed, carriage return, the four
  separators 0x1C to 0x1F and the space. The same set is \<open>\s\<close> of module \<open>re\<close>.
\<close>

definition isspace :: "char \<Rightarrow> bool" where
  "isspace c = (let n = (of_char c :: nat) in (9 \<le> n \<and> n \<le> 13) \<or> (28 \<le> n \<and> n \<le> 32))"

text \<open>\<open>[0-9]\<close>, which is \<open>\d\<close> on ASCII.\<close>

definition isdigit :: "char \<Rightarrow> bool" where
  "isdigit c = (let n = (of_char c :: nat) in 48 \<le> n \<and> n \<le> 57)"

text \<open>The character class \<open>[0-9.]\<close>.\<close>

definition isfloatchar :: "char \<Rightarrow> bool" where
  "isfloatchar c = (isdigit c \<or> c = CHR ''.'')"

text \<open>The characters of \<open>"'\""\<close>: apostrophe and double quote.\<close>

definition isquote :: "char \<Rightarrow> bool" where
  "isquote c = (c = CHR 0x27 \<or> c = CHR 0x22)"

text \<open>\<open>s.strip(chars)\<close>, and \<open>s.strip()\<close> which removes white space.\<close>

definition strip_chars :: "(char \<Rightarrow> bool) \<Rightarrow> string \<Rightarrow> string" where
  "strip_chars P s = rev (dropWhile P (rev (dropWhile P s)))"

definition strip :: "string \<Rightarrow> string" where
  "strip s = strip_chars isspace s"

text \<open>\<open>s.split(sep)\<close> for a separator of one character.\<close>

fun split :: "char \<Rightarrow> string \<Rightarrow> string list" where
  "split sep [] = [[]]"
| "split sep (c # cs) =
     (if c = sep then [] # split sep cs
      else (case split sep cs of [] \<Rightarrow> [[c]] | w # ws \<Rightarrow> (c # w) # ws))"

text \<open>The value of a string of decimal digits.\<close>

definition digit_val :: "char \<Rightarrow> nat" where
  "digit_val c = of_char c - 48"

definition decimal :: "string \<Rightarrow> nat" where
  "decimal s = foldl (\<lambda>a c. 10 * a + digit_val c) 0 s"

text \<open>
  \<open>int(s)\<close> on a string of ASCII digits. Python 3.11 and later (which setup.py requires)
  raise \<open>ValueError\<close> when the string has more than 4300 digits; \<open>None\<close> is the exception.
\<close>

definition py_int :: "string \<Rightarrow> int option" where
  "py_int s = (if s \<noteq> [] \<and> list_all isdigit s \<and> length s \<le> 4300
               then Some (int (decimal s)) else None)"

text \<open>
  \<open>float(s)\<close> on a string over \<open>[0-9.]\<close>: digits with at most one point and at least one
  digit; anything else raises \<open>ValueError\<close> (\<open>None\<close>). The result is the number denoted.
\<close>

definition py_float :: "string \<Rightarrow> rat option" where
  "py_float s =
     (let ip = takeWhile isdigit s; r = dropWhile isdigit s
      in case r of
           [] \<Rightarrow> (if ip = [] then None else Some (of_nat (decimal ip)))
         | c # fp \<Rightarrow>
             (if c = CHR ''.'' \<and> list_all isdigit fp \<and> (ip \<noteq> [] \<or> fp \<noteq> [])
              then Some (of_nat (decimal ip) + of_nat (decimal fp) / 10 ^ length fp)
              else None))"

text \<open>
  \<open>re.match\<close> of \<open>pyautogui\.moveTo\((\d+),\s*(\d+)(?:,\s*duration=([0-9.]+))?\)\<close> at the start
  of \<open>s\<close>; the result holds the groups 1, 2 and 3. Each repetition is followed by a character
  outside its class, so the longest run is the only one that can match.
\<close>

definition match_moveTo :: "string \<Rightarrow> (string \<times> string \<times> string option) option" where
  "match_moveTo s =
     (if \<not> prefix ''pyautogui.moveTo('' s then None
      else
        let r0 = drop 17 s; g1 = takeWhile isdigit r0; r1 = dropWhile isdigit r0 in
        if g1 = [] then None
        else (case r1 of
            [] \<Rightarrow> None
          | c1 # r2 \<Rightarrow>
              if c1 \<noteq> CHR '','' then None
              else
                let r3 = dropWhile isspace r2; g2 = takeWhile isdigit r3;
                    r4 = dropWhile isdigit r3 in
                if g2 = [] then None
                else (case r4 of
                    [] \<Rightarrow> None
                  | c2 # r5 \<Rightarrow>
                      if c2 = CHR '')'' then Some (g1, g2, None)
                      else if c2 = CHR '','' then
                        let r6 = dropWhile isspace r5 in
                        if \<not> prefix ''duration='' r6 then None
                        else
                          let r7 = drop 9 r6; g3 = takeWhile isfloatchar r7;
                              r8 = dropWhile isfloatchar r7 in
                          if g3 = [] then None
                          else (case r8 of
                              [] \<Rightarrow> None
                            | c3 # r9 \<Rightarrow> if c3 = CHR '')'' then Some (g1, g2, Some g3) else None)
                      else None)))"

text \<open>
  The group \<open>(.+)\<close> followed by the literal \<open>lit\<close>: \<open>.+\<close> takes at least one character and
  never a line feed, tries the longest run first and gives characters back until \<open>lit\<close>
  follows. \<open>greedy_from lit s n\<close> tries the runs of length \<open>n\<close> down to 1.
\<close>

fun greedy_from :: "string \<Rightarrow> string \<Rightarrow> nat \<Rightarrow> string option" where
  "greedy_from lit s 0 = None"
| "greedy_from lit s (Suc n) =
     (if prefix lit (drop (Suc n) s) then Some (take (Suc n) s) else greedy_from lit s n)"

definition greedy_group :: "string \<Rightarrow> string \<Rightarrow> string option" where
  "greedy_group lit s = greedy_from lit s (length (takeWhile (\<lambda>c. c \<noteq> CHR 0x0A) s))"

text \<open>\<open>re.match\<close> of \<open>pyautogui\.typewrite\("(.+)"\)\<close>, giving group 1.\<close>

definition match_typewrite :: "string \<Rightarrow> string option" where
  "match_typewrite s =
     (let p = ''pyautogui.typewrite('' @ [CHR 0x22]
      in if prefix p s then greedy_group [CHR 0x22, CHR '')''] (drop (length p) s) else None)"

text \<open>\<open>re.match\<close> of \<open>pyautogui\.hotkey\((.+)\)\<close>, giving group 1.\<close>

definition match_hotkey :: "string \<Rightarrow> string option" where
  "match_hotkey s =
     (let p = ''pyautogui.hotkey(''
      in if prefix p s then greedy_group '')'' (drop (length p) s) else None)"

text \<open>\<open>re.match\<close> of \<open>print\("(.+)"\)\<close>, giving group 1.\<close>

definition match_print :: "string \<Rightarrow> string option" where
  "match_print s =
     (let p = ''print('' @ [CHR 0x22]
      in if prefix p s then greedy_group [CHR 0x22, CHR '')''] (drop (length p) s) else None)"


section \<open>CommandParser (system/command_executor.py)\<close>

text \<open>
  \<open>_parse_single_command\<close>. The result \<open>None\<close> is Python's \<open>None\<close>, returned at the end of the
  function when no branch produced a command, and by the \<open>except\<close> clause of the moveTo branch
  when \<open>int\<close> or \<open>float\<close> raises. The identifier is drawn before the text is looked at.
\<close>

definition parse_single_command ::
  "env \<Rightarrow> string \<Rightarrow> string \<Rightarrow> string option \<Rightarrow> history \<Rightarrow> command option \<times> history" where
  "parse_single_command E command_text0 user_prompt' screenshot_id' h =
     (let (command_id, h1) = uuid4 E h;
          command_text = strip command_text0
      in
        if prefix ''pyautogui.moveTo'' command_text then
          (case match_moveTo command_text of
             None \<Rightarrow> (None, h1)
           | Some (g1, g2, g3) \<Rightarrow>
               (case (py_int g1, py_int g2,
                      (case g3 of None \<Rightarrow> Some (1 / 10) | Some s \<Rightarrow> py_float s)) of
                  (Some x, Some y, Some duration) \<Rightarrow>
                    (let (c, h2) = new_command E command_id MOUSE_MOVE PENDING user_prompt'
                           command_text None screenshot_id'
                           [(''x'', PInt x), (''y'', PInt y), (''duration'', PFloat duration)] h1
                     in (Some c, h2))
                | _ \<Rightarrow> (None, h1)))
        else if prefix ''pyautogui.click'' command_text then
          (let (c, h2) = new_command E command_id MOUSE_CLICK PENDING user_prompt'
                 command_text None screenshot_id'
                 [(''button'', PStr ''left''), (''clicks'', PInt 1)] h1
           in (Some c, h2))
        else if prefix ''pyautogui.typewrite'' command_text then
          (case match_typewrite command_text of
             None \<Rightarrow> (None, h1)
           | Some text \<Rightarrow>
               (let (c, h2) = new_command E command_id KEYBOARD_TYPE PENDING user_prompt'
                      command_text None screenshot_id' [(''text'', PStr text)] h1
                in (Some c, h2)))
        else if prefix ''pyautogui.hotkey'' command_text then
          (case match_hotkey command_text of
             None \<Rightarrow> (None, h1)
           | Some keys_str \<Rightarrow>
               (let keys = map (\<lambda>k. PStr (strip_chars isquote (strip k))) (split (CHR '','') keys_str);
                    (c, h2) = new_command E command_id KEYBOARD_HOTKEY PENDING user_prompt'
                      command_text None screenshot_id' [(''keys'', PList keys)] h1
                in (Some c, h2)))
        else if prefix ''start '' command_text then
          (let command_str = drop (length ''start '') command_text;
               (c, h2) = new_command E command_id START_PROCESS PENDING user_prompt'
                 command_text None screenshot_id' [(''command'', PStr command_str)] h1
           in (Some c, h2))
        else if prefix ''print('' command_text then
          (case match_print command_text of
             None \<Rightarrow> (None, h1)
           | Some text \<Rightarrow>
               (let (c, h2) = new_command E command_id PRINT_OUTPUT PENDING user_prompt'
                      command_text None screenshot_id' [(''text'', PStr text)] h1
                in (Some c, h2)))
        else (None, h1))"

text \<open>
  The loop of \<open>parse_text_response\<close> over the stripped pieces: an empty piece is skipped, a
  piece for which \<open>_parse_single_command\<close> returns \<open>None\<close> appends nothing.
\<close>

fun parse_sub_commands ::
  "env \<Rightarrow> string list \<Rightarrow> string \<Rightarrow> string option \<Rightarrow> history \<Rightarrow> command list \<times> history" where
  "parse_sub_commands E [] up sid h = ([], h)"
| "parse_sub_commands E (sub_text # rest) up sid h =
     (if sub_text = [] then parse_sub_commands E rest up sid h
      else (case parse_single_command E sub_text up sid h of
          (None, h1) \<Rightarrow> parse_sub_commands E rest up sid h1
        | (Some sub_command, h1) \<Rightarrow>
            (let (cs, h2) = parse_sub_commands E rest up sid h1 in (sub_command # cs, h2))))"

definition error_sentinel :: string where
  "error_sentinel = ''An error occurred, retrying...''"

definition parse_text_response ::
  "env \<Rightarrow> AIResponse \<Rightarrow> string \<Rightarrow> string option \<Rightarrow> history \<Rightarrow> command \<times> history" where
  "parse_text_response E response user_prompt' screenshot_id' h =
     (let (command_id, h1) = uuid4 E h;
          raw = raw_text response
      in
        if strip raw = error_sentinel
           \<or> prefix (''print('' @ [CHR 0x27] @ ''An error occurred'') raw
        then new_command E command_id UNKNOWN FAILED user_prompt' raw
               (Some ''AI detected an error and suggested retry'') screenshot_id' [] h1
        else if CHR '';'' \<in> set raw then
          (let (command, h2) = new_command E command_id COMPOSITE PENDING user_prompt' raw
                 None screenshot_id' [] h1;
               sub_command_texts = map strip (split (CHR '';'') raw);
               (subs, h3) = parse_sub_commands E sub_command_texts user_prompt' screenshot_id' h2
           in (set_sub_commands (sub_commands command @ subs) command, h3))
        else
          (case parse_single_command E raw user_prompt' screenshot_id' h1 of
             (Some command, h2) \<Rightarrow> (command, h2)
           | (None, h2) \<Rightarrow>
               new_command E command_id UNKNOWN PENDING user_prompt' raw
                 (Some ''Could not parse command'') screenshot_id' [] h2))"

text \<open>
  \<open>_parse_function_call\<close>. Building the pydantic model validates each argument; a validation
  error is caught by the \<open>except\<close> clause, which returns \<open>None\<close>.
\<close>

definition parse_function_call ::
  "env \<Rightarrow> FunctionCall \<Rightarrow> string \<Rightarrow> string option \<Rightarrow> history \<Rightarrow> command option \<times> history" where
  "parse_function_call E function_call user_prompt' screenshot_id' h =
     (let (command_id, h1) = uuid4 E h;
          args = arguments function_call;
          rr = str_of_call E function_call
      in
        if name function_call = ''execute_mouse_movement'' then
          (case (validate_int E (dict_get args ''x'' (PInt 0)),
                 validate_int E (dict_get args ''y'' (PInt 0)),
                 validate_float E (dict_get args ''duration'' (PFloat (1 / 10)))) of
             (Some x, Some y, Some duration) \<Rightarrow>
               (let (c, h2) = new_command E command_id MOUSE_MOVE PENDING user_prompt' rr None
                      screenshot_id' [(''x'', x), (''y'', y), (''duration'', duration)] h1
                in (Some c, h2))
           | _ \<Rightarrow> (None, h1))
        else if name function_call = ''execute_keyboard_input'' then
          (case validate_str E (dict_get args ''text'' (PStr [])) of
             Some text \<Rightarrow>
               (let (c, h2) = new_command E command_id KEYBOARD_TYPE PENDING user_prompt' rr None
                      screenshot_id' [(''text'', text)] h1
                in (Some c, h2))
           | None \<Rightarrow> (None, h1))
        else if name function_call = ''execute_hotkey'' then
          (case validate_str_list E (dict_get args ''keys'' (PList [])) of
             Some keys \<Rightarrow>
               (let (c, h2) = new_command E command_id KEYBOARD_HOTKEY PENDING user_prompt' rr None
                      screenshot_id' [(''keys'', keys)] h1
                in (Some c, h2))
           | None \<Rightarrow> (None, h1))
        else if name function_call = ''start_application'' then
          (case validate_str E (dict_get args ''path'' (PStr [])) of
             Some command_str \<Rightarrow>
               (let (c, h2) = new_command E command_id START_PROCESS PENDING user_prompt' rr None
                      screenshot_id' [(''command'', command_str)] h1
                in (Some c, h2))
           | None \<Rightarrow> (None, h1))
        else if name function_call = ''print_output'' then
          (case validate_str E (dict_get args ''text'' (PStr [])) of
             Some text \<Rightarrow>
               (let (c, h2) = new_command E command_id PRINT_OUTPUT PENDING user_prompt' rr None
                      screenshot_id' [(''text'', text)] h1
                in (Some c, h2))
           | None \<Rightarrow> (None, h1))
        else (None, h1))"

text \<open>The loop of \<open>parse_function_call_response\<close> over several function calls.\<close>

fun parse_function_calls ::
  "env \<Rightarrow> FunctionCall list \<Rightarrow> string \<Rightarrow> string option \<Rightarrow> history \<Rightarrow> command list \<times> history" where
  "parse_function_calls E [] up sid h = ([], h)"
| "parse_function_calls E (func_call # rest) up sid h =
     (case parse_function_call E func_call up sid h of
        (None, h1) \<Rightarrow> parse_function_calls E rest up sid h1
      | (Some sub_command, h1) \<Rightarrow>
          (let (cs, h2) = parse_function_calls E rest up sid h1 in (sub_command # cs, h2)))"

definition parse_function_call_response ::
  "env \<Rightarrow> AIResponse \<Rightarrow> string \<Rightarrow> string option \<Rightarrow> history \<Rightarrow> command \<times> history" where
  "parse_function_call_response E response user_prompt' screenshot_id' h =
     (let (command_id, h1) = uuid4 E h
      in
        if function_calls response = [] then
          new_command E command_id UNKNOWN PENDING user_prompt' (raw_text response)
            (Some ''No function calls found in response'') screenshot_id' [] h1
        else if length (function_calls response) > 1 then
          (let (command, h2) = new_command E command_id COMPOSITE PENDING user_prompt'
                 (raw_text response) None screenshot_id' [] h1;
               (subs, h3) = parse_function_calls E (function_calls response) user_prompt'
                 screenshot_id' h2
           in (set_sub_commands (sub_commands command @ subs) command, h3))
        else
          (case parse_function_call E (function_calls response ! 0) user_prompt' screenshot_id' h1 of
             (Some command, h2) \<Rightarrow> (command, h2)
           | (None, h2) \<Rightarrow>
               new_command E command_id UNKNOWN PENDING user_prompt' (raw_text response)
                 (Some ''Could not parse function call'') screenshot_id' [] h2))"


section \<open>CommandExecutor (system/command_executor.py)\<close>

text \<open>
  The six \<open>_execute_*\<close> methods. Each returns \<open>Some b\<close> when the method returns \<open>b\<close> and \<open>None\<close>
  when an exception leaves it. The calls to the logger are not modelled.
\<close>

definition execute_mouse_move :: "env \<Rightarrow> command \<Rightarrow> history \<Rightarrow> bool option \<times> history" where
  "execute_mouse_move E c h =
     (let x = dict_get (data c) ''x'' (PInt 0);
          y = dict_get (data c) ''y'' (PInt 0);
          duration = dict_get (data c) ''duration'' (PFloat (1 / 10));
          (r, h1) = host E (MoveTo x y duration) h
      in (if r = Returned then Some True else None, h1))"

definition execute_mouse_click :: "env \<Rightarrow> command \<Rightarrow> history \<Rightarrow> bool option \<times> history" where
  "execute_mouse_click E c h =
     (let button = dict_get (data c) ''button'' (PStr ''left'');
          clicks = dict_get (data c) ''clicks'' (PInt 1);
          (r, h1) = host E (Click button clicks) h
      in (if r = Returned then Some True else None, h1))"

definition execute_keyboard_type :: "env \<Rightarrow> command \<Rightarrow> history \<Rightarrow> bool option \<times> history" where
  "execute_keyboard_type E c h =
     (let text = dict_get (data c) ''text'' (PStr [])
      in if \<not> truthy text then (Some False, h)
         else (let (r, h1) = host E (Typewrite text) h
               in (if r = Returned then Some True else None, h1)))"

definition execute_keyboard_hotkey :: "env \<Rightarrow> command \<Rightarrow> history \<Rightarrow> bool option \<times> history" where
  "execute_keyboard_hotkey E c h =
     (let keys = dict_get (data c) ''keys'' (PList [])
      in if \<not> truthy keys then (Some False, h)
         else (let (r, h1) = host E (Hotkey keys) h
               in (if r = Returned then Some True else None, h1)))"

definition execute_start_process :: "env \<Rightarrow> command \<Rightarrow> history \<Rightarrow> bool option \<times> history" where
  "execute_start_process E c h =
     (let command_str = dict_get (data c) ''command'' (PStr [])
      in if \<not> truthy command_str then (Some False, h)
         else (let (r, h1) = host E (SubprocessRun command_str) h
               in (case r of Returned \<Rightarrow> Some True
                     | CalledProcessError \<Rightarrow> Some False
                     | Raised \<Rightarrow> None, h1)))"

definition execute_print_output :: "env \<Rightarrow> command \<Rightarrow> history \<Rightarrow> bool option \<times> history" where
  "execute_print_output E c h =
     (let text = dict_get (data c) ''text'' (PStr []);
          (r, h1) = host E (Print text) h
      in (if r = Returned then Some True else None, h1))"

text \<open>
  \<open>_execute_single_command\<close>: dispatch on the type; an exception is caught and gives
  \<open>False\<close>; any other type (Composite, Unknown) gives \<open>False\<close>. The ghost event is appended on return.
\<close>

definition execute_single_command :: "env \<Rightarrow> command \<Rightarrow> history \<Rightarrow> bool \<times> history" where
  "execute_single_command E c h =
     (let (r, h1) =
            (if type_c c = MOUSE_MOVE then execute_mouse_move E c h
             else if type_c c = MOUSE_CLICK then execute_mouse_click E c h
             else if type_c c = KEYBOARD_TYPE then execute_keyboard_type E c h
             else if type_c c = KEYBOARD_HOTKEY then execute_keyboard_hotkey E c h
             else if type_c c = START_PROCESS then execute_start_process E c h
             else if type_c c = PRINT_OUTPUT then execute_print_output E c h
             else (Some False, h));
          ok = (case r of None \<Rightarrow> False | Some b \<Rightarrow> b)
      in (ok, h1 @ [Attempt c ok]))"

text \<open>
  The \<open>for\<close> loop of \<open>_execute_composite_command\<close> with its accumulator \<open>success\<close>; \<open>break\<close>
  returns at once, otherwise the loop sleeps and goes on. \<open>time.sleep(0.1)\<close> does not raise.
\<close>

fun execute_sub_commands :: "env \<Rightarrow> command list \<Rightarrow> bool \<Rightarrow> history \<Rightarrow> bool \<times> history" where
  "execute_sub_commands E [] success h = (success, h)"
| "execute_sub_commands E (sub_command # rest) success h =
     (let (sub_success, h1) = execute_single_command E sub_command h;
          success1 = (success \<and> sub_success)
      in if \<not> sub_success \<and> type_c sub_command \<noteq> PRINT_OUTPUT then (success1, h1)
         else execute_sub_commands E rest success1 (time_sleep h1))"

definition execute_composite_command :: "env \<Rightarrow> command \<Rightarrow> history \<Rightarrow> bool \<times> history" where
  "execute_composite_command E c h = execute_sub_commands E (sub_commands c) True h"

text \<open>
  \<open>execute_command\<close>. The result carries the command object after the call. No exception
  reaches the \<open>except\<close> clause: \<open>_execute_single_command\<close> catches its own and neither
  \<open>update_status\<close> nor the loop raises.
\<close>

definition execute_command :: "env \<Rightarrow> command \<Rightarrow> history \<Rightarrow> bool \<times> command \<times> history" where
  "execute_command E c h =
     (if status c = FAILED then (False, c, h)
      else
        let (c1, h1) = update_status E EXECUTING None c h;
            (success, h2) = (if type_c c1 = COMPOSITE then execute_composite_command E c1 h1
                             else execute_single_command E c1 h1);
            (c2, h3) = (if success then update_status E COMPLETED None c1 h2
                        else update_status E FAILED (Some ''Command execution failed'') c1 h2)
        in (success, c2, h3))"

definition execute_ai_response ::
  "env \<Rightarrow> AIResponse \<Rightarrow> string \<Rightarrow> string option \<Rightarrow> history \<Rightarrow> bool \<times> command \<times> history" where
  "execute_ai_response E response user_prompt' screenshot_id' h =
     (let (c, h1) = (if is_function_call response
                     then parse_function_call_response E response user_prompt' screenshot_id' h
                     else parse_text_response E response user_prompt' screenshot_id' h)
      in execute_command E c h1)"

text \<open>The attempts recorded in a history, oldest first.\<close>

fun attempts :: "history \<Rightarrow> (command \<times> bool) list" where
  "attempts [] = []"
| "attempts (Attempt c ok # h) = (c, ok) # attempts h"
| "attempts (e # h) = attempts h"


section \<open>ContextWindow and ContextManager (ai/context_manager.py)\<close>

record CommandEntry =
  timestamp :: rat
  command_e :: string
  user_prompt_e :: string
  result_e :: string
  screenshot_id_e :: string

record ContextWindow =
  max_entries :: int
  time_window :: int
  entries :: "CommandEntry list"

text \<open>The slice \<open>xs[a:]\<close>: a negative \<open>a\<close> counts from the end, and both ends are clamped.\<close>

definition slice_from :: "int \<Rightarrow> 'a list \<Rightarrow> 'a list" where
  "slice_from a xs =
     (let n = int (length xs);
          start = (if a < 0 then max (n + a) 0 else min a n)
      in drop (nat start) xs)"

text \<open>\<open>_prune_old_entries\<close>; \<open>now\<close> is the value \<open>time.time()\<close> returns.\<close>

definition prune_old_entries :: "rat \<Rightarrow> ContextWindow \<Rightarrow> ContextWindow" where
  "prune_old_entries now w =
     (let w1 = (if int (length (entries w)) > max_entries w
                then w\<lparr>entries := slice_from (- max_entries w) (entries w)\<rparr> else w);
          cutoff_time = now - of_int (time_window w1)
      in w1\<lparr>entries := filter (\<lambda>e. timestamp e \<ge> cutoff_time) (entries w1)\<rparr>)"

definition add_entry :: "rat \<Rightarrow> CommandEntry \<Rightarrow> ContextWindow \<Rightarrow> ContextWindow" where
  "add_entry now entry w = prune_old_entries now (w\<lparr>entries := entries w @ [entry]\<rparr>)"

text \<open>
  class \<open>ContextManager\<close>. An entry of \<open>system_state\<close> is the pair of its \<open>"value"\<close> and its
  \<open>"updated_at"\<close>.
\<close>

record ContextManager =
  conversation_context :: ContextWindow
  system_state :: "string \<rightharpoonup> pyval \<times> rat"
  user_preferences :: "string \<rightharpoonup> pyval"

definition update_system_state :: "rat \<Rightarrow> string \<Rightarrow> pyval \<Rightarrow> ContextManager \<Rightarrow> ContextManager" where
  "update_system_state now key v cm = cm\<lparr>system_state := (system_state cm)(key \<mapsto> (v, now))\<rparr>"

text \<open>
  \<open>get_system_state\<close>: the result \<open>None\<close> is Python's \<open>None\<close>; the second component is the
  manager after the call.
\<close>

definition get_system_state :: "rat \<Rightarrow> string \<Rightarrow> ContextManager \<Rightarrow> pyval option \<times> ContextManager" where
  "get_system_state now key cm =
     (case system_state cm key of
        None \<Rightarrow> (None, cm)
      | Some (v, updated) \<Rightarrow>
          if now - updated > 3600
          then (None, cm\<lparr>system_state := (system_state cm)(key := None)\<rparr>)
          else (Some v, cm))"

definition get_all_system_state ::
  "bool \<Rightarrow> rat \<Rightarrow> ContextManager \<Rightarrow> (string \<rightharpoonup> pyval) \<times> ContextManager" where
  "get_all_system_state include_expired now cm =
     (if include_expired
      then (\<lambda>k. case system_state cm k of None \<Rightarrow> None | Some (v, updated) \<Rightarrow> Some v, cm)
      else (\<lambda>k. case system_state cm k of
                  None \<Rightarrow> None
                | Some (v, updated) \<Rightarrow> if now - updated \<le> 3600 then Some v else None, cm))"


section \<open>Concrete inputs\<close>

text \<open>A fixed environment and a fresh command, for concrete evaluations.\<close>

definition env0 :: env where
  "env0 = \<lparr> uuid_src = (\<lambda>h. ''id'' @ replicate (length h) (CHR ''i'')),
            clock_src = (\<lambda>h. 1000 + of_nat (length h)),
            host_src = (\<lambda>h call. Returned),
            validate_int = (\<lambda>v. case v of PInt i \<Rightarrow> Some (PInt i) | _ \<Rightarrow> None),
            validate_float = (\<lambda>v. case v of PFloat f \<Rightarrow> Some (PFloat f)
                                    | PInt i \<Rightarrow> Some (PFloat (of_int i)) | _ \<Rightarrow> None),
            validate_str = (\<lambda>v. case v of PStr s \<Rightarrow> Some (PStr s) | _ \<Rightarrow> None),
            validate_str_list = (\<lambda>v. case v of PList xs \<Rightarrow> Some (PList xs) | _ \<Rightarrow> None),
            str_of_call = (\<lambda>fc. name fc) \<rparr>"

definition cmd0 :: command where
  "cmd0 = Command ''c0'' MOUSE_CLICK PENDING 0 None None ''prompt'' ''pyautogui.click()''
            None None [(''button'', PStr ''left''), (''clicks'', PInt 1)] []"



definition no_calls_response :: AIResponse where
  "no_calls_response = \<lparr> id_r = ''r2'', type_r = FUNCTION_CALL, raw_text = ''nothing'', function_calls = [] \<rparr>"

definition entry0 :: CommandEntry where
  "entry0 = \<lparr> timestamp = 100, command_e = ''pyautogui.click()'', user_prompt_e = ''click'',
      result_e = ''Success'', screenshot_id_e = ''s1'' \<rparr>"

definition window0 :: ContextWindow where
  "window0 = \<lparr> max_entries = 0, time_window = 3600, entries = [entry0, entry0] \<rparr>"

definition manager0 :: ContextManager where
  "manager0 = \<lparr> conversation_context = \<lparr> max_entries = 10, time_window = 3600, entries = [] \<rparr>,
      system_state = [''volume'' \<mapsto> (PInt 7, 0)], user_preferences = Map.empty \<rparr>"


definition env1 :: env where
  "env1 = env0\<lparr> host_src := (\<lambda>h call. case call of
              SubprocessRun v \<Rightarrow> CalledProcessError
            | Print v \<Rightarrow> Raised
            | _ \<Rightarrow> Returned) \<rparr>"






definition composite_response :: AIResponse where
  "composite_response = \<lparr> id_r = ''r3'', type_r = COMMAND,
      raw_text = ''pyautogui.click();start nothing'', function_calls = [] \<rparr>"








section \<open>Facts about update_status\<close>

lemma sel_set_status [simp]:
  "status (set_status v c) = v"
  "executed_at (set_status v c) = executed_at c"
  "completed_at (set_status v c) = completed_at c"
  "error_message (set_status v c) = error_message c"
  "sub_commands (set_status v c) = sub_commands c"
  "type_c (set_status v c) = type_c c"
  "id_c (set_status v c) = id_c c"
  "data (set_status v c) = data c"
  "raw_response (set_status v c) = raw_response c"
  by (cases c; simp add: set_status_def)+

lemma sel_set_executed_at [simp]:
  "status (set_executed_at v c) = status c"
  "executed_at (set_executed_at v c) = v"
  "completed_at (set_executed_at v c) = completed_at c"
  "error_message (set_executed_at v c) = error_message c"
  "sub_commands (set_executed_at v c) = sub_commands c"
  "type_c (set_executed_at v c) = type_c c"
  "id_c (set_executed_at v c) = id_c c"
  "data (set_executed_at v c) = data c"
  "raw_response (set_executed_at v c) = raw_response c"
  by (cases c; simp add: set_executed_at_def)+

lemma sel_set_completed_at [simp]:
  "status (set_completed_at v c) = status c"
  "executed_at (set_completed_at v c) = executed_at c"
  "completed_at (set_completed_at v c) = v"
  "error_message (set_completed_at v c) = error_message c"
  "sub_commands (set_completed_at v c) = sub_commands c"
  "type_c (set_completed_at v c) = type_c c"
  "id_c (set_completed_at v c) = id_c c"
  "data (set_completed_at v c) = data c"
  "raw_response (set_completed_at v c) = raw_response c"
  by (cases c; simp add: set_completed_at_def)+

lemma sel_set_error_message [simp]:
  "status (set_error_message v c) = status c"
  "executed_at (set_error_message v c) = executed_at c"
  "completed_at (set_error_message v c) = completed_at c"
  "error_message (set_error_message v c) = v"
  "sub_commands (set_error_message v c) = sub_commands c"
  "type_c (set_error_message v c) = type_c c"
  "id_c (set_error_message v c) = id_c c"
  "data (set_error_message v c) = data c"
  "raw_response (set_error_message v c) = raw_response c"
  by (cases c; simp add: set_error_message_def)+

lemma update_status_fields:
  "status (fst (update_status E st err c h)) = st"
  "executed_at (fst (update_status E st err c h)) =
     (if st = EXECUTING \<and> executed_at c = None then Some (clock_src E h) else executed_at c)"
  "completed_at (fst (update_status E st err c h)) =
     (if st = COMPLETED \<and> completed_at c = None then Some (clock_src E h) else completed_at c)"
  "error_message (fst (update_status E st err c h)) =
     (if st = FAILED then err else error_message c)"
  "sub_commands (fst (update_status E st err c h)) = sub_commands c"
  "type_c (fst (update_status E st err c h)) = type_c c"
  by (auto simp: update_status_def datetime_now_def Let_def split: prod.splits)

lemma update_status_seq_executed_kept:
  "executed_at c = Some t \<Longrightarrow> executed_at (fst (update_status_seq E trs c h)) = Some t"
proof (induction trs arbitrary: c h)
  case Nil
  then show ?case by simp
next
  case (Cons p trs)
  obtain st err where p: "p = (st, err)" by (cases p)
  obtain c1 h1 where u: "update_status E st err c h = (c1, h1)" by (cases "update_status E st err c h")
  have "executed_at c1 = Some t"
    using update_status_fields(2)[of E st err c h] u Cons.prems by simp
  then show ?case using Cons.IH[of c1 h1] p u by simp
qed

lemma update_status_seq_completed_kept:
  "completed_at c = Some t \<Longrightarrow> completed_at (fst (update_status_seq E trs c h)) = Some t"
proof (induction trs arbitrary: c h)
  case Nil
  then show ?case by simp
next
  case (Cons p trs)
  obtain st err where p: "p = (st, err)" by (cases p)
  obtain c1 h1 where u: "update_status E st err c h = (c1, h1)" by (cases "update_status E st err c h")
  have "completed_at c1 = Some t"
    using update_status_fields(3)[of E st err c h] u Cons.prems by simp
  then show ?case using Cons.IH[of c1 h1] p u by simp
qed


section \<open>Facts about the context window\<close>

lemma slice_from_neg_length:
  "1 \<le> m \<Longrightarrow> int (length (slice_from (- m) xs)) \<le> m"
  by (auto simp: slice_from_def Let_def)

lemma add_entry_count:
  "1 \<le> max_entries w \<Longrightarrow> int (length (entries (add_entry now e w))) \<le> max_entries w"
proof -
  assume m: "1 \<le> max_entries w"
  let ?w0 = "w\<lparr>entries := entries w @ [e]\<rparr>"
  let ?w1 = "(if int (length (entries ?w0)) > max_entries ?w0
                then ?w0\<lparr>entries := slice_from (- max_entries ?w0) (entries ?w0)\<rparr> else ?w0)"
  have "int (length (entries ?w1)) \<le> max_entries w"
    using slice_from_neg_length[OF m, of "entries w @ [e]"] by auto
  moreover have "length (entries (add_entry now e w)) \<le> length (entries ?w1)"
    by (simp add: add_entry_def prune_old_entries_def Let_def)
  ultimately show ?thesis by linarith
qed

lemma add_entry_age:
  "x \<in> set (entries (add_entry now e w)) \<Longrightarrow> timestamp x \<ge> now - of_int (time_window w)"
  by (auto simp: add_entry_def prune_old_entries_def Let_def split: if_splits)

lemma subseq_slice_from: "subseq (slice_from a xs) xs"
  by (simp add: slice_from_def Let_def suffix_imp_subseq suffix_drop)

lemma add_entry_order:
  "subseq (entries (add_entry now e w)) (entries w @ [e])"
proof -
  have "subseq (filter P (slice_from a xs)) xs" for P a and xs :: "CommandEntry list"
    using subseq_slice_from[of a xs] subseq_filter_left[of P "slice_from a xs"] subseq_order.order_trans by blast
  then show ?thesis
    by (auto simp: add_entry_def prune_old_entries_def Let_def)
qed


section \<open>Facts about the executor\<close>

lemma attempts_append: "attempts (h @ h') = attempts h @ attempts h'"
  by (induction h rule: attempts.induct) simp_all

lemma attempts_host [simp]: "attempts (snd (host E call h)) = attempts h"
  by (simp add: host_def attempts_append)






section \<open>Facts about parsed commands and the frame of execution\<close>

lemma sel_set_sub_commands [simp]:
  "status (set_sub_commands v c) = status c"
  "executed_at (set_sub_commands v c) = executed_at c"
  "completed_at (set_sub_commands v c) = completed_at c"
  "error_message (set_sub_commands v c) = error_message c"
  "sub_commands (set_sub_commands v c) = v"
  "type_c (set_sub_commands v c) = type_c c"
  by (cases c; simp add: set_sub_commands_def)+

lemma new_command_fields:
  "new_command E i ty st up rr em sid d h =
     (Command i ty st (clock_src E h) None None up rr em sid d [], h @ [ClockRead])"
  by (simp add: new_command_def datetime_now_def)

lemma parse_single_command_fresh:
  assumes "parse_single_command E t up sid h = (Some c, h')"
  shows "status c = PENDING \<and> executed_at c = None \<and> completed_at c = None
         \<and> error_message c = None \<and> sub_commands c = []"
  using assms
  by (auto simp: parse_single_command_def uuid4_def new_command_fields Let_def
      split: if_splits option.splits prod.splits)

lemma parse_sub_commands_fresh:
  "c \<in> set (fst (parse_sub_commands E ts up sid h)) \<Longrightarrow>
     status c = PENDING \<and> executed_at c = None \<and> completed_at c = None
     \<and> error_message c = None \<and> sub_commands c = []"
proof (induction ts arbitrary: h)
  case Nil
  then show ?case by simp
next
  case (Cons t ts)
  show ?case
  proof (cases "t = []")
    case True
    then show ?thesis using Cons by simp
  next
    case False
    obtain r h1 where p: "parse_single_command E t up sid h = (r, h1)"
      by (cases "parse_single_command E t up sid h")
    show ?thesis
    proof (cases r)
      case None
      then show ?thesis using Cons False p by simp
    next
      case (Some sc)
      then have "c = sc \<or> c \<in> set (fst (parse_sub_commands E ts up sid h1))"
        using Cons.prems False p by (simp add: case_prod_beta)
      then show ?thesis
        using parse_single_command_fresh[of E t up sid h sc h1] p Some Cons.IH[of h1] by auto
    qed
  qed
qed

lemma parse_function_call_fresh:
  assumes "parse_function_call E fc up sid h = (Some c, h')"
  shows "status c = PENDING \<and> executed_at c = None \<and> completed_at c = None
         \<and> error_message c = None \<and> sub_commands c = []"
  using assms
  by (auto simp: parse_function_call_def uuid4_def new_command_fields Let_def
      split: if_splits option.splits prod.splits)

lemma parse_function_calls_fresh:
  "c \<in> set (fst (parse_function_calls E fcs up sid h)) \<Longrightarrow>
     status c = PENDING \<and> executed_at c = None \<and> completed_at c = None
     \<and> error_message c = None \<and> sub_commands c = []"
proof (induction fcs arbitrary: h)
  case Nil
  then show ?case by simp
next
  case (Cons fc fcs)
  obtain r h1 where p: "parse_function_call E fc up sid h = (r, h1)"
    by (cases "parse_function_call E fc up sid h")
  show ?case
  proof (cases r)
    case None
    then show ?thesis using Cons p by simp
  next
    case (Some sc)
    then have "c = sc \<or> c \<in> set (fst (parse_function_calls E fcs up sid h1))"
      using Cons.prems p by (simp add: case_prod_beta)
    then show ?thesis
      using parse_function_call_fresh[of E fc up sid h sc h1] p Some Cons.IH[of h1] by auto
  qed
qed

lemma parse_text_response_children:
  "c \<in> set (sub_commands (fst (parse_text_response E r up sid h))) \<Longrightarrow>
     status c = PENDING \<and> executed_at c = None \<and> completed_at c = None \<and> error_message c = None"
proof -
  assume a: "c \<in> set (sub_commands (fst (parse_text_response E r up sid h)))"
  let ?h1 = "h @ [Uuid4]"
  let ?raw = "raw_text r"
  consider (sentinel) "strip ?raw = error_sentinel
           \<or> prefix (''print('' @ [CHR 0x27] @ ''An error occurred'') ?raw"
    | (composite) "\<not> (strip ?raw = error_sentinel
           \<or> prefix (''print('' @ [CHR 0x27] @ ''An error occurred'') ?raw)" "CHR '';'' \<in> set ?raw"
    | (single) "\<not> (strip ?raw = error_sentinel
           \<or> prefix (''print('' @ [CHR 0x27] @ ''An error occurred'') ?raw)" "CHR '';'' \<notin> set ?raw"
    by blast
  then show ?thesis
  proof cases
    case sentinel
    then have "sub_commands (fst (parse_text_response E r up sid h)) = []"
      by (simp add: parse_text_response_def uuid4_def new_command_fields Let_def)
    then show ?thesis using a by simp
  next
    case composite
    then have "sub_commands (fst (parse_text_response E r up sid h)) =
        fst (parse_sub_commands E (map strip (split (CHR '';'') ?raw)) up sid (?h1 @ [ClockRead]))"
      by (simp add: parse_text_response_def uuid4_def new_command_fields Let_def case_prod_beta)
    then show ?thesis using a parse_sub_commands_fresh by metis
  next
    case single
    obtain q h2 where p: "parse_single_command E ?raw up sid ?h1 = (q, h2)"
      by (cases "parse_single_command E ?raw up sid ?h1")
    show ?thesis
    proof (cases q)
      case None
      then have "sub_commands (fst (parse_text_response E r up sid h)) = []"
        using single p by (simp add: parse_text_response_def uuid4_def new_command_fields Let_def)
      then show ?thesis using a by simp
    next
      case (Some sc)
      then have "fst (parse_text_response E r up sid h) = sc"
        using single p by (simp add: parse_text_response_def uuid4_def Let_def)
      then show ?thesis using a parse_single_command_fresh[of E ?raw up sid ?h1 sc h2] p Some by simp
    qed
  qed
qed

lemma parse_function_call_response_children:
  "c \<in> set (sub_commands (fst (parse_function_call_response E r up sid h))) \<Longrightarrow>
     status c = PENDING \<and> executed_at c = None \<and> completed_at c = None \<and> error_message c = None"
proof -
  assume a: "c \<in> set (sub_commands (fst (parse_function_call_response E r up sid h)))"
  let ?h1 = "h @ [Uuid4]"
  consider (none) "function_calls r = []"
    | (many) "function_calls r \<noteq> []" "length (function_calls r) > 1"
    | (one) "function_calls r \<noteq> []" "\<not> length (function_calls r) > 1"
    by blast
  then show ?thesis
  proof cases
    case none
    then have "sub_commands (fst (parse_function_call_response E r up sid h)) = []"
      by (simp add: parse_function_call_response_def uuid4_def new_command_fields Let_def)
    then show ?thesis using a by simp
  next
    case many
    then have "sub_commands (fst (parse_function_call_response E r up sid h)) =
        fst (parse_function_calls E (function_calls r) up sid (?h1 @ [ClockRead]))"
      by (simp add: parse_function_call_response_def uuid4_def new_command_fields Let_def
          case_prod_beta)
    then show ?thesis using a parse_function_calls_fresh by metis
  next
    case one
    obtain q h2 where p: "parse_function_call E (function_calls r ! 0) up sid ?h1 = (q, h2)"
      by (cases "parse_function_call E (function_calls r ! 0) up sid ?h1")
    show ?thesis
    proof (cases q)
      case None
      then have "sub_commands (fst (parse_function_call_response E r up sid h)) = []"
        using one p
        by (simp add: parse_function_call_response_def uuid4_def new_command_fields Let_def)
      then show ?thesis using a by simp
    next
      case (Some sc)
      then have "fst (parse_function_call_response E r up sid h) = sc"
        using one p by (simp add: parse_function_call_response_def uuid4_def Let_def)
      then show ?thesis
        using a parse_function_call_fresh[of E "function_calls r ! 0" up sid ?h1 sc h2] p Some
        by simp
    qed
  qed
qed

lemma execute_command_sub_commands:
  "sub_commands (fst (snd (execute_command E c h))) = sub_commands c"
  by (simp add: execute_command_def Let_def case_prod_beta update_status_fields)

lemma execute_command_frame:
  "id_c (fst (snd (execute_command E c h))) = id_c c"
  "type_c (fst (snd (execute_command E c h))) = type_c c"
  "data (fst (snd (execute_command E c h))) = data c"
  "raw_response (fst (snd (execute_command E c h))) = raw_response c"
  by (auto simp: execute_command_def update_status_def datetime_now_def Let_def case_prod_beta)

lemma execute_command_root:
  "\<exists>st ex co em. fst (snd (execute_command E c h)) =
        Command (id_c c) (type_c c) st (created_at c) ex co (user_prompt c) (raw_response c) em
          (screenshot_id c) (data c) (sub_commands c)"
  by (cases c)
    (simp add: execute_command_def update_status_def set_status_def set_executed_at_def
      set_completed_at_def set_error_message_def datetime_now_def Let_def case_prod_beta)

lemma composite_response_run:
  "fst (snd (execute_ai_response env1 composite_response ''p'' None [])) =
     (Command ''id'' COMPOSITE FAILED 1001 (Some 1006) None ''p''
        ''pyautogui.click();start nothing'' (Some ''Command execution failed'') None []
        [Command ''idii'' MOUSE_CLICK PENDING 1003 None None ''p'' ''pyautogui.click()'' None None
           [(''button'', PStr ''left''), (''clicks'', PInt 1)] [],
         Command ''idiiii'' START_PROCESS PENDING 1005 None None ''p'' ''start nothing'' None None
           [(''command'', PStr ''nothing'')] []])"
  by code_simp


section \<open>Facts about the moveTo fragment\<close>





lemma class_facts [simp]:
  "\<not> isdigit (CHR '','')" "\<not> isdigit (CHR '')'')" "\<not> isspace (CHR '','')"
  "\<not> isspace (CHR '')'')" "\<not> isspace (CHR ''d'')" "\<not> isspace (CHR ''p'')"
  "\<not> isfloatchar (CHR '')'')"
  by (simp_all add: isdigit_def isspace_def isfloatchar_def)











lemma semicolon_class [simp]:
  "\<not> isdigit (CHR '';'')" "\<not> isspace (CHR '';'')" "\<not> isfloatchar (CHR '';'')"
  by (simp_all add: isdigit_def isspace_def isfloatchar_def)



section \<open>Facts about composite parsing\<close>











section \<open>Claims\<close>

text \<open>
  C6 (as stated, refuted): moving a command whose completed timestamp is unset to Failed would
  set the completed timestamp. On a fresh command the transition to FAILED leaves
  \<open>completed_at\<close> at \<open>None\<close>.
\<close>

theorem C6_failed_sets_completed_counterexample:
  "completed_at cmd0 = None \<and>
   completed_at (fst (update_status env0 FAILED (Some ''boom'') cmd0 [])) = None"
  by (simp add: update_status_def cmd0_def Let_def)

text \<open>
  C6 (amended): for every command and every transition, \<open>update_status\<close> sets the status;
  moving to Executing sets the executed timestamp to the clock reading only if it is unset;
  moving to Completed sets the completed timestamp to the clock reading only if it is unset;
  moving to Failed leaves both timestamps as they are and always overwrites the error message
  with the supplied one; no other transition touches the timestamps or the error message.
  Across any further sequence of transitions a timestamp that is set never changes.
\<close>

theorem C6_update_status:
  "status (fst (update_status E st err c h)) = st
   \<and> executed_at (fst (update_status E st err c h)) =
       (if st = EXECUTING \<and> executed_at c = None then Some (clock_src E h) else executed_at c)
   \<and> completed_at (fst (update_status E st err c h)) =
       (if st = COMPLETED \<and> completed_at c = None then Some (clock_src E h) else completed_at c)
   \<and> error_message (fst (update_status E st err c h)) =
       (if st = FAILED then err else error_message c)
   \<and> (executed_at c = Some t \<longrightarrow> executed_at (fst (update_status_seq E trs c h)) = Some t)
   \<and> (completed_at c = Some t \<longrightarrow> completed_at (fst (update_status_seq E trs c h)) = Some t)"
  using update_status_fields(1-4)[of E st err c h]
    update_status_seq_executed_kept[of c t E trs h]
    update_status_seq_completed_kept[of c t E trs h]
  by simp

theorem C6_update_status_witness:
  "executed_at (fst (update_status env0 EXECUTING None cmd0 [])) = Some 1000
   \<and> executed_at (fst (update_status_seq env0 [(EXECUTING, None), (EXECUTING, None)]
        (fst (update_status env0 EXECUTING None cmd0 [])) [ClockRead])) = Some 1000
   \<and> completed_at (fst (update_status env0 COMPLETED None cmd0 [])) = Some 1000
   \<and> completed_at (fst (update_status_seq env0 [(COMPLETED, None), (FAILED, Some ''late'')]
        (fst (update_status env0 COMPLETED None cmd0 [])) [ClockRead])) = Some 1000
   \<and> error_message (fst (update_status env0 FAILED (Some ''boom'') cmd0 [])) = Some ''boom''"
  using C6_update_status[of env0 EXECUTING None cmd0 "[]"]
    C6_update_status[of env0 EXECUTING None "fst (update_status env0 EXECUTING None cmd0 [])"
      "[ClockRead]" 1000 "[(EXECUTING, None), (EXECUTING, None)]"]
    C6_update_status[of env0 COMPLETED None cmd0 "[]"]
    C6_update_status[of env0 COMPLETED None "fst (update_status env0 COMPLETED None cmd0 [])"
      "[ClockRead]" 1000 "[(COMPLETED, None), (FAILED, Some ''late'')]"]
    C6_update_status[of env0 FAILED "Some ''boom''" cmd0 "[]"]
  by (simp add: cmd0_def env0_def)



text \<open>
  C7 (the code departs from the claim): with \<open>max_entries = 0\<close> the count pruning computes the
  slice \<open>entries[-0:]\<close>, which is the whole list. After an insertion into a window of two
  entries, three entries are retained although \<open>max_entries\<close> is 0.
\<close>

theorem C7_zero_max_entries:
  "max_entries window0 = 0
   \<and> length (entries (add_entry 100 entry0 window0)) = 3"
  by (simp add: add_entry_def prune_old_entries_def slice_from_def window0_def entry0_def Let_def)

text \<open>
  C8 (as stated, refuted): the bulk read with \<open>include_expired = False\<close> that finds an expired
  key would delete it from the store. The read omits the key from its result, and the store
  still holds the key afterwards.
\<close>

theorem C8_bulk_read_keeps_key_counterexample:
  "system_state manager0 ''volume'' = Some (PInt 7, 0)
   \<and> fst (get_all_system_state False 4000 manager0) ''volume'' = None
   \<and> system_state (snd (get_all_system_state False 4000 manager0)) ''volume'' = Some (PInt 7, 0)"
  by (simp add: get_all_system_state_def manager0_def)

text \<open>
  C8 (amended): for every key whose entry is older than 3600 seconds at read time, the
  single-key read \<open>get_system_state\<close> returns absent and deletes exactly that key from the store;
  the bulk read \<open>get_all_system_state\<close> with \<open>include_expired = False\<close> omits the key from its result
  and leaves the store as it is; after the single-key read, a bulk read at any later time omits
  the key. Nothing removes the entry ahead of such a read: reading or writing another key
  leaves it in the store.
\<close>

theorem C8_expired_reads:
  assumes "system_state cm key = Some (v, updated)" and "now - updated > 3600"
  shows "fst (get_system_state now key cm) = None
       \<and> system_state (snd (get_system_state now key cm)) = (system_state cm)(key := None)
       \<and> fst (get_all_system_state False now cm) key = None
       \<and> snd (get_all_system_state False now cm) = cm
       \<and> fst (get_all_system_state False later (snd (get_system_state now key cm))) key = None
       \<and> (other \<noteq> key \<longrightarrow>
            system_state (snd (get_system_state now other cm)) key = Some (v, updated)
            \<and> system_state (update_system_state now other w cm) key = Some (v, updated))"
proof -
  have single: "fst (get_system_state now key cm) = None
       \<and> system_state (snd (get_system_state now key cm)) = (system_state cm)(key := None)"
    using assms by (simp add: get_system_state_def)
  have bulk: "fst (get_all_system_state False now cm) key = None
       \<and> snd (get_all_system_state False now cm) = cm"
    using assms by (simp add: get_all_system_state_def)
  have after: "fst (get_all_system_state False later (snd (get_system_state now key cm))) key = None"
    using assms by (simp add: get_system_state_def get_all_system_state_def)
  have lazy: "other \<noteq> key \<longrightarrow>
            system_state (snd (get_system_state now other cm)) key = Some (v, updated)
            \<and> system_state (update_system_state now other w cm) key = Some (v, updated)"
    using assms(1)
    by (auto simp: get_system_state_def update_system_state_def split: option.splits)
  show ?thesis using single bulk after lazy by blast
qed

theorem C8_expired_reads_witness:
  "system_state manager0 ''volume'' = Some (PInt 7, 0) \<and> (4000::rat) - 0 > 3600
   \<and> fst (get_system_state 4000 ''volume'' manager0) = None
   \<and> system_state (snd (get_system_state 4000 ''volume'' manager0)) ''volume'' = None
   \<and> fst (get_all_system_state False 4000 manager0) ''volume'' = None
   \<and> fst (get_all_system_state False 10 (snd (get_system_state 4000 ''volume'' manager0))) ''volume'' = None
   \<and> ''light'' \<noteq> ''volume''
   \<and> system_state (snd (get_system_state 4000 ''light'' manager0)) ''volume'' = Some (PInt 7, 0)
   \<and> system_state (update_system_state 4000 ''light'' (PInt 1) manager0) ''volume'' = Some (PInt 7, 0)"
proof -
  have a: "system_state manager0 ''volume'' = Some (PInt 7, 0)" by (simp add: manager0_def)
  have b: "(4000::rat) - 0 > 3600" by simp
  show ?thesis
    using a b C8_expired_reads[OF a b, where later = 10 and other = "''light''" and w = "PInt 1"]
    by simp
qed

text \<open>
  C9 (as stated, refuted): a response with zero function calls would give a command with status
  Failed. The command returned by the parser has status Pending.
\<close>

theorem C9_status_counterexample:
  "function_calls no_calls_response = []
   \<and> status (fst (parse_function_call_response env0 no_calls_response ''open notepad'' None [])) = PENDING"
  by (simp add: parse_function_call_response_def no_calls_response_def uuid4_def new_command_def
      datetime_now_def Let_def)

text \<open>
  C9 (amended): for every function-call response with zero function calls,
  \<open>parse_function_call_response\<close> returns one Unknown command with status Pending, no
  sub-commands and the error message "No function calls found in response".
\<close>

theorem C9_no_function_calls:
  assumes "function_calls response = []"
  shows "parse_function_call_response E response up sid h =
           (Command (uuid_src E h) UNKNOWN PENDING (clock_src E (h @ [Uuid4])) None None up
              (raw_text response) (Some ''No function calls found in response'') sid [] [],
            h @ [Uuid4, ClockRead])"
  using assms
  by (simp add: parse_function_call_response_def uuid4_def new_command_def datetime_now_def Let_def)

theorem C9_no_function_calls_witness:
  "function_calls no_calls_response = []
   \<and> parse_function_call_response env0 no_calls_response ''open notepad'' None [] =
       (Command ''id'' UNKNOWN PENDING 1001 None None ''open notepad'' ''nothing''
          (Some ''No function calls found in response'') None [] [],
        [Uuid4, ClockRead])"
proof -
  have s: "function_calls no_calls_response = []"
    by (simp add: no_calls_response_def)
  show ?thesis
    using s C9_no_function_calls[OF s, of env0 "''open notepad''" None "[]"]
    by (simp add: env0_def no_calls_response_def)
qed





text \<open>
  C10: \<open>execute_command\<close> changes at most the status, the two timestamps and the error
  message of the command it is given; identifier, type, creation time, prompt, raw response,
  screenshot id, data and the whole list of sub-commands are as before. The executor never calls
  \<open>update_status\<close> on a child: after \<open>execute_ai_response\<close> (parse, then execute) every
  sub-command still has status Pending, no executed or completed timestamp and no error message,
  whatever the host did.
\<close>

theorem C10_children_untouched:
  "(\<exists>st ex co em. fst (snd (execute_command E c h)) =
        Command (id_c c) (type_c c) st (created_at c) ex co (user_prompt c) (raw_response c) em
          (screenshot_id c) (data c) (sub_commands c))
   \<and> (\<forall>s \<in> set (sub_commands (fst (snd (execute_ai_response E response up sid h)))).
         status s = PENDING \<and> executed_at s = None \<and> completed_at s = None
         \<and> error_message s = None)"
proof -
  have "\<forall>s \<in> set (sub_commands (fst (snd (execute_ai_response E response up sid h)))).
         status s = PENDING \<and> executed_at s = None \<and> completed_at s = None
         \<and> error_message s = None"
  proof (cases "is_function_call response")
    case True
    then have "sub_commands (fst (snd (execute_ai_response E response up sid h))) =
        sub_commands (fst (parse_function_call_response E response up sid h))"
      by (simp add: execute_ai_response_def case_prod_beta execute_command_sub_commands)
    then show ?thesis using parse_function_call_response_children by metis
  next
    case False
    then have "sub_commands (fst (snd (execute_ai_response E response up sid h))) =
        sub_commands (fst (parse_text_response E response up sid h))"
      by (simp add: execute_ai_response_def case_prod_beta execute_command_sub_commands)
    then show ?thesis using parse_text_response_children by metis
  qed
  then show ?thesis using execute_command_root[of E c h] by simp
qed

theorem C10_children_untouched_witness:
  "sub_commands (fst (snd (execute_ai_response env1 composite_response ''p'' None []))) =
     [Command ''idii'' MOUSE_CLICK PENDING 1003 None None ''p'' ''pyautogui.click()'' None None
        [(''button'', PStr ''left''), (''clicks'', PInt 1)] [],
      Command ''idiiii'' START_PROCESS PENDING 1005 None None ''p'' ''start nothing'' None None
        [(''command'', PStr ''nothing'')] []]
   \<and> status (fst (snd (execute_ai_response env1 composite_response ''p'' None []))) = FAILED"
  using C10_children_untouched[of env1 cmd0 "[]" composite_response "''p''" None]
    composite_response_run
  by simp







end
